theory Spec2Isabelle
  imports Main
begin

section \<open>Issue views of apiserver/plane/app/views/issue/base.py\<close>

text \<open>
  The views are Django REST handlers over a relational store. The store is modelled as a
  record of tables (lists of rows), a queryset as the list of rows it selects, a handler
  as a function from the store and the request to an outcome (and the new store where the
  handler writes). Fire-and-forget tasks (\<^verbatim>\<open>recent_visited_task.delay\<close>) and the role
  gate of the \<^verbatim>\<open>allow_permission\<close> decorator run outside the handler bodies and are not
  part of the model.
\<close>

subsection \<open>Rows and tables\<close>

text \<open>A primary key is modelled by its textual form, a datetime by a point on a time line.\<close>

type_synonym uuid = string
type_synonym datetime = int

datatype json =
    JNull
  | JBool bool
  | JNum int
  | JStr string
  | JArr "json list"
  | JObj "(string \<times> json) list"

text \<open>
  \<^verbatim>\<open>Issue\<close>: the columns the handlers of this file filter or order on.
  \<open>workspace_slug\<close> is the slug of the workspace row the issue points to
  (\<^verbatim>\<open>workspace__slug\<close>).
\<close>

record issue =
  pk :: uuid
  workspace_slug :: string
  project_id :: uuid
  created_by :: "uuid option"
  updated_at :: datetime
  deleted_at :: "datetime option"

text \<open>\<^verbatim>\<open>ProjectMember\<close>, with the columns of the lookup in \<^verbatim>\<open>IssueViewSet.list\<close>.\<close>

record project_member =
  pm_workspace_slug :: string
  pm_project_id :: uuid
  pm_member :: uuid
  pm_role :: int
  pm_is_active :: bool

text \<open>\<^verbatim>\<open>Module\<close>: its key and \<^verbatim>\<open>archived_at\<close>.\<close>

record module_row =
  module_pk :: uuid
  module_archived_at :: "datetime option"

text \<open>\<^verbatim>\<open>IssueUserProperty\<close>: one row of display preferences per user and project.\<close>

record issue_user_property =
  iup_pk :: uuid
  iup_user :: uuid
  iup_project_id :: uuid
  filters :: json
  display_filters :: json
  display_properties :: json

text \<open>
  The store. \<open>issue_module\<close>, \<open>issue_assignee\<close> and \<open>issue_label\<close> are the link tables
  behind \<^verbatim>\<open>issue_module__module_id\<close>, \<^verbatim>\<open>assignees__id\<close> and \<^verbatim>\<open>labels__id\<close>: pairs of an
  issue key and the key of the related row.
\<close>

record database =
  issues :: "issue list"
  project_members :: "project_member list"
  modules :: "module_row list"
  issue_module :: "(uuid \<times> uuid) list"
  issue_assignee :: "(uuid \<times> uuid) list"
  issue_label :: "(uuid \<times> uuid) list"
  issue_user_properties :: "issue_user_property list"

subsection \<open>Managers\<close>

text \<open>
  Modelled from the spec: the manager \<^verbatim>\<open>Issue.issue_objects\<close> is declared in
  \<^verbatim>\<open>plane.db.models\<close>, which is not among the source files. The spec's data model says
  of the item: "soft-delete markers (archived_at, deleted_at, is_draft). Invariant:
  soft-deleted items are excluded from default queries." The manager is the rows of the
  table whose \<^verbatim>\<open>deleted_at\<close> is null; \<open>issue_objects_row\<close> is its condition on a row.
\<close>

definition issue_objects_row :: "issue \<Rightarrow> bool" where
  "issue_objects_row i = (deleted_at i = None)"

definition issue_objects :: "database \<Rightarrow> issue list" where
  "issue_objects db = filter issue_objects_row (issues db)"

text \<open>
  Modelled from the spec: the default manager \<^verbatim>\<open>Issue.objects\<close>, declared in
  \<^verbatim>\<open>plane.db.models\<close> as well; by the same sentence of the spec it excludes the
  soft-deleted rows.
\<close>

definition Issue_objects_row :: "issue \<Rightarrow> bool" where
  "Issue_objects_row i = (deleted_at i = None)"

definition Issue_objects :: "database \<Rightarrow> issue list" where
  "Issue_objects db = filter Issue_objects_row (issues db)"

text \<open>
  Modelled from the spec: \<^verbatim>\<open>delete()\<close> on a queryset of the soft-delete model (declared
  outside the source files). \<^verbatim>\<open>deleted_at\<close> is the item's soft-delete marker: deleting
  the rows a queryset selects sets the marker of exactly the rows of the table that satisfy
  the queryset's condition, to the current time.
\<close>

definition queryset_delete :: "database \<Rightarrow> datetime \<Rightarrow> (issue \<Rightarrow> bool) \<Rightarrow> database" where
  "queryset_delete db now cond =
     db\<lparr>issues := map (\<lambda>i. if cond i then i\<lparr>deleted_at := Some now\<rparr> else i) (issues db)\<rparr>"

subsection \<open>Requests and outcomes\<close>

text \<open>
  \<open>GET\<close> is the query string as the list of its key-value pairs; \<open>user\<close> is the key of
  \<^verbatim>\<open>request.user\<close>; \<open>fields_or_expand\<close> is the truth value of
  \<^verbatim>\<open>self.fields or self.expand\<close>.
\<close>

record request =
  user :: uuid
  GET :: "(string \<times> string) list"
  fields_or_expand :: bool

text \<open>
  \<^verbatim>\<open>request.GET.get(key, default)\<close>: the last value given for the key, \<open>None\<close> (the
  default of the caller) when the key is absent.
\<close>

definition qget :: "(string \<times> string) list \<Rightarrow> string \<Rightarrow> string option" where
  "qget params key =
     (case filter (\<lambda>kv. fst kv = key) params of
        [] \<Rightarrow> None
      | kv # kvs \<Rightarrow> Some (snd (last (kv # kvs))))"

text \<open>Python truth of a parameter read with default \<^verbatim>\<open>False\<close> or \<^verbatim>\<open>None\<close>.\<close>

definition truthy :: "string option \<Rightarrow> bool" where
  "truthy v = (case v of None \<Rightarrow> False | Some s \<Rightarrow> s \<noteq> [])"

datatype exn = DoesNotExist | MultipleObjectsReturned | ValidationError

datatype paginator_cls = OffsetPaginator | GroupedOffsetPaginator | SubGroupedOffsetPaginator

text \<open>An issue with the three aggregated id lists of the annotating queries.\<close>

record annotated_issue =
  row :: issue
  label_ids :: "uuid list"
  assignee_ids :: "uuid list"
  module_ids :: "uuid list"

datatype body =
    Error_body string
  | Deleted_message nat
  | Issues_body "issue list"
  | Issue_detail annotated_issue
  | Property_body issue_user_property
  | Errors_body json
  | No_body

text \<open>
  What a handler does last: it returns \<^verbatim>\<open>Response(body, status)\<close>, hands a queryset to
  \<^verbatim>\<open>self.paginate\<close> (paginator class, queryset, order, group and sub-group field names)
  or to \<^verbatim>\<open>paginate\<close> of \<^verbatim>\<open>plane.utils.global_paginator\<close> (base queryset, annotated
  queryset, cursor, whether the description is among the fields), or an exception
  leaves it.
\<close>

datatype outcome =
    Response body nat
  | Paginate paginator_cls "issue list" string "string option" "string option"
  | Global_paginate "issue list" "annotated_issue list" "string option" bool
  | Raise exn

subsection \<open>BulkDeleteIssuesEndpoint\<close>

text \<open>
  \<^verbatim>\<open>delete\<close>: \<open>data_issue_ids\<close> is \<^verbatim>\<open>request.data\<close> at the key \<^verbatim>\<open>issue_ids\<close>
  (\<open>None\<close> when the key is absent, which reads as the empty list); \<open>now\<close> is the time of
  the call.
\<close>

definition BulkDeleteIssuesEndpoint_delete ::
  "database \<Rightarrow> datetime \<Rightarrow> string \<Rightarrow> uuid \<Rightarrow> uuid list option \<Rightarrow> outcome \<times> database" where
  "BulkDeleteIssuesEndpoint_delete db now slug project_id' data_issue_ids =
     (let issue_ids = (case data_issue_ids of None \<Rightarrow> [] | Some ids \<Rightarrow> ids) in
      if length issue_ids = 0
      then (Response (Error_body ''Issue IDs are required'') 400, db)
      else
        let cond = (\<lambda>i. workspace_slug i = slug \<and> project_id i = project_id'
                        \<and> pk i \<in> set issue_ids);
            issues' = filter cond (issue_objects db);
            total_issues = length issues'
        in (Response (Deleted_message total_issues) 200,
            queryset_delete db now (\<lambda>i. issue_objects_row i \<and> cond i)))"

subsection \<open>Collaborators outside this file\<close>

text \<open>
  The filter compiler, the ordering resolver, the grouper, the serializer that validates
  and saves an update, the column defaults of \<^verbatim>\<open>IssueUserProperty\<close> and Django's reading
  of a datetime are imported by the views and are not among the source files. They are
  parameters of the handlers:
  \<^item> \<open>issue_filters\<close>: the condition on a row that \<^verbatim>\<open>.filter(**issue_filters(params, "GET"))\<close>
    applies;
  \<^item> \<open>order_issue_queryset\<close>: the ordered queryset and the effective order parameter;
  \<^item> \<open>issue_queryset_grouper\<close>: the queryset after the grouper;
  \<^item> \<open>IssueCreateSerializer_save\<close>: \<^verbatim>\<open>is_valid()\<close> and \<^verbatim>\<open>save()\<close> of a partial update,
    the errors or the store after the save;
  \<^item> \<open>parse_datetime\<close>: the datetime a query value denotes, \<open>None\<close> when it denotes none.
\<close>

record collab =
  issue_filters :: "(string \<times> string) list \<Rightarrow> issue \<Rightarrow> bool"
  order_issue_queryset :: "issue list \<Rightarrow> string \<Rightarrow> issue list \<times> string"
  issue_queryset_grouper :: "issue list \<Rightarrow> string option \<Rightarrow> string option \<Rightarrow> issue list"
  IssueCreateSerializer_save :: "database \<Rightarrow> issue \<Rightarrow> json \<Rightarrow> json + database"
  parse_datetime :: "string \<Rightarrow> datetime option"
  default_filters :: json
  default_display_filters :: json
  default_display_properties :: json

text \<open>
  What the properties of the listed rows need of the two collaborators that return a
  queryset: they order and annotate, so every row they return is a row they were given.
\<close>

definition selects_rows :: "collab \<Rightarrow> bool" where
  "selects_rows c =
     (\<forall>q ob g sg. set (fst (order_issue_queryset c q ob)) \<subseteq> set q
                 \<and> set (issue_queryset_grouper c q g sg) \<subseteq> set q)"

text \<open>
  \<^verbatim>\<open>issue_activity.delay\<close>: type, requested data, actor, issue, project and the
  current instance (\<open>None\<close> for the empty one).
\<close>

datatype activity =
  Issue_activity string json uuid uuid uuid "annotated_issue option"

subsection \<open>IssueListEndpoint\<close>

text \<open>Python's \<^verbatim>\<open>str.split(sep)\<close> for a separator of one character.\<close>

fun str_split :: "char \<Rightarrow> string \<Rightarrow> string list" where
  "str_split sep [] = [[]]"
| "str_split sep (c # cs) =
     (if c = sep then [] # str_split sep cs
      else (case str_split sep cs of
              [] \<Rightarrow> [[c]]
            | w # ws \<Rightarrow> (c # w) # ws))"

text \<open>The list comprehension of \<^verbatim>\<open>get\<close>: the entries between commas that are not empty.\<close>

definition IssueListEndpoint_issue_ids :: "string \<Rightarrow> uuid list" where
  "IssueListEndpoint_issue_ids issue_ids =
     filter (\<lambda>issue_id. issue_id \<noteq> []) (str_split (CHR '','') issue_ids)"

text \<open>
  The queryset of \<^verbatim>\<open>get\<close>. The annotations (\<^verbatim>\<open>cycle_id\<close> and the three counts) add
  columns and select no rows; \<^verbatim>\<open>.distinct()\<close> is \<open>remdups\<close>.
\<close>

definition IssueListEndpoint_queryset :: "database \<Rightarrow> string \<Rightarrow> uuid \<Rightarrow> uuid list \<Rightarrow> issue list" where
  "IssueListEndpoint_queryset db slug project_id' issue_ids =
     remdups
       (filter (\<lambda>i. workspace_slug i = slug)
          (filter (\<lambda>i. workspace_slug i = slug \<and> project_id i = project_id' \<and> pk i \<in> set issue_ids)
             (issue_objects db)))"

definition IssueListEndpoint_get :: "collab \<Rightarrow> database \<Rightarrow> request \<Rightarrow> string \<Rightarrow> uuid \<Rightarrow> outcome" where
  "IssueListEndpoint_get c db request slug project_id' =
     (let issue_ids = qget (GET request) ''issues'' in
      if \<not> truthy issue_ids
      then Response (Error_body ''Issues are required'') 400
      else
        let issue_ids = IssueListEndpoint_issue_ids (case issue_ids of None \<Rightarrow> [] | Some s \<Rightarrow> s);
            queryset = IssueListEndpoint_queryset db slug project_id' issue_ids;
            filters' = issue_filters c (GET request);
            order_by_param = (case qget (GET request) ''order_by'' of
                                None \<Rightarrow> ''-created_at'' | Some v \<Rightarrow> v);
            issue_queryset = filter filters' queryset;
            issue_queryset = fst (order_issue_queryset c issue_queryset order_by_param);
            group_by = qget (GET request) ''group_by'';
            sub_group_by = qget (GET request) ''sub_group_by'';
            issue_queryset = issue_queryset_grouper c issue_queryset group_by sub_group_by
        in if fields_or_expand request
           then Response (Issues_body queryset) 200
           else Response (Issues_body issue_queryset) 200)"

subsection \<open>IssueViewSet\<close>

definition IssueViewSet_get_queryset :: "database \<Rightarrow> string \<Rightarrow> uuid \<Rightarrow> issue list" where
  "IssueViewSet_get_queryset db slug project_id' =
     remdups
       (filter (\<lambda>i. workspace_slug i = slug)
          (filter (\<lambda>i. project_id i = project_id') (issue_objects db)))"

text \<open>
  \<^verbatim>\<open>list\<close>, up to the call of the grouper: the queryset and the effective order
  parameter.
\<close>

definition IssueViewSet_list_issue_queryset ::
  "collab \<Rightarrow> database \<Rightarrow> request \<Rightarrow> string \<Rightarrow> uuid \<Rightarrow> issue list \<times> string" where
  "IssueViewSet_list_issue_queryset c db request slug project_id' =
     (let filters' = issue_filters c (GET request);
          order_by_param = (case qget (GET request) ''order_by'' of
                              None \<Rightarrow> ''-created_at'' | Some v \<Rightarrow> v);
          issue_queryset = filter filters' (IssueViewSet_get_queryset db slug project_id');
          ordered = order_issue_queryset c issue_queryset order_by_param;
          group_by = qget (GET request) ''group_by'';
          sub_group_by = qget (GET request) ''sub_group_by''
      in (issue_queryset_grouper c (fst ordered) group_by sub_group_by, snd ordered))"

text \<open>
  The lookup \<^verbatim>\<open>ProjectMember.objects.filter(workspace__slug=slug, project_id=project_id,
  member=request.user, role=5, is_active=True).exists()\<close>.
\<close>

definition role_5_member :: "database \<Rightarrow> string \<Rightarrow> uuid \<Rightarrow> uuid \<Rightarrow> bool" where
  "role_5_member db slug project_id' u =
     list_ex (\<lambda>m. pm_workspace_slug m = slug \<and> pm_project_id m = project_id'
                   \<and> pm_member m = u \<and> pm_role m = 5 \<and> pm_is_active m)
       (project_members db)"

definition IssueViewSet_list :: "collab \<Rightarrow> database \<Rightarrow> request \<Rightarrow> string \<Rightarrow> uuid \<Rightarrow> outcome" where
  "IssueViewSet_list c db request slug project_id' =
     (let grouped = IssueViewSet_list_issue_queryset c db request slug project_id';
          order_by_param = snd grouped;
          group_by = qget (GET request) ''group_by'';
          sub_group_by = qget (GET request) ''sub_group_by'';
          issue_queryset =
            (if role_5_member db slug project_id' (user request)
             then filter (\<lambda>i. created_by i = Some (user request)) (fst grouped)
             else fst grouped)
      in if truthy group_by then
           if truthy sub_group_by then
             if group_by = sub_group_by
             then Response (Error_body ''Group by and sub group by cannot have same parameters'') 400
             else Paginate SubGroupedOffsetPaginator issue_queryset order_by_param
                    group_by sub_group_by
           else Paginate GroupedOffsetPaginator issue_queryset order_by_param group_by None
         else Paginate OffsetPaginator issue_queryset order_by_param None None)"

text \<open>
  The aggregates \<^verbatim>\<open>Coalesce(ArrayAgg(column, distinct=True, filter=...), [])\<close> for one
  issue: the distinct keys the link table gives the issue, among those the filter keeps.
  \<^verbatim>\<open>assignees__member_project__is_active=True\<close> keeps an assignee joined to a
  \<^verbatim>\<open>ProjectMember\<close> row that is active; \<^verbatim>\<open>issue_module__module__archived_at__isnull=True\<close>
  keeps a module whose row has no \<^verbatim>\<open>archived_at\<close>.
\<close>

definition agg_label_ids :: "database \<Rightarrow> issue \<Rightarrow> uuid list" where
  "agg_label_ids db i =
     remdups (map snd (filter (\<lambda>l. fst l = pk i) (issue_label db)))"

definition agg_assignee_ids :: "database \<Rightarrow> issue \<Rightarrow> uuid list" where
  "agg_assignee_ids db i =
     remdups (map snd (filter (\<lambda>l. fst l = pk i
        \<and> list_ex (\<lambda>m. pm_member m = snd l \<and> pm_is_active m) (project_members db))
       (issue_assignee db)))"

definition agg_module_ids :: "database \<Rightarrow> issue \<Rightarrow> uuid list" where
  "agg_module_ids db i =
     remdups (map snd (filter (\<lambda>l. fst l = pk i
        \<and> list_ex (\<lambda>m. module_pk m = snd l \<and> module_archived_at m = None) (modules db))
       (issue_module db)))"

text \<open>The \<^verbatim>\<open>module_ids\<close> aggregate of \<^verbatim>\<open>partial_update\<close>, whose filter is only the null test.\<close>

definition agg_module_ids_partial_update :: "database \<Rightarrow> issue \<Rightarrow> uuid list" where
  "agg_module_ids_partial_update db i =
     remdups (map snd (filter (\<lambda>l. fst l = pk i) (issue_module db)))"

text \<open>\<^verbatim>\<open>.first()\<close> of a queryset.\<close>

definition first :: "'a list \<Rightarrow> 'a option" where
  "first q = (case q of [] \<Rightarrow> None | x # _ \<Rightarrow> Some x)"

text \<open>
  \<^verbatim>\<open>retrieve\<close>. The prefetches and \<^verbatim>\<open>is_subscribed\<close> add columns to the one row and are
  left out of the body.
\<close>

definition IssueViewSet_retrieve :: "database \<Rightarrow> request \<Rightarrow> string \<Rightarrow> uuid \<Rightarrow> uuid \<Rightarrow> outcome" where
  "IssueViewSet_retrieve db request slug project_id' pk' =
     (case first (filter (\<lambda>i. pk i = pk') (IssueViewSet_get_queryset db slug project_id')) of
        None \<Rightarrow> Response (Error_body ''The required object does not exist.'') 404
      | Some i \<Rightarrow>
          Response (Issue_detail \<lparr>row = i, label_ids = agg_label_ids db i,
                      assignee_ids = agg_assignee_ids db i,
                      module_ids = agg_module_ids db i\<rparr>) 200)"

text \<open>
  \<^verbatim>\<open>partial_update\<close>: the response, the activity it queues (whose current instance is
  the serialized annotated issue) and the store.
\<close>

definition IssueViewSet_partial_update ::
  "collab \<Rightarrow> database \<Rightarrow> request \<Rightarrow> json \<Rightarrow> string \<Rightarrow> uuid \<Rightarrow> uuid
     \<Rightarrow> outcome \<times> activity option \<times> database" where
  "IssueViewSet_partial_update c db request data slug project_id' pk' =
     (case first (filter (\<lambda>i. pk i = pk') (IssueViewSet_get_queryset db slug project_id')) of
        None \<Rightarrow> (Response (Error_body ''Issue not found'') 404, None, db)
      | Some i \<Rightarrow>
          let current_instance = \<lparr>row = i, label_ids = agg_label_ids db i,
                                    assignee_ids = agg_assignee_ids db i,
                                    module_ids = agg_module_ids_partial_update db i\<rparr>
          in (case IssueCreateSerializer_save c db i data of
                Inr db' \<Rightarrow>
                  (Response No_body 204,
                   Some (Issue_activity ''issue.activity.updated'' data (user request) pk'
                           project_id' (Some current_instance)),
                   db')
              | Inl errors \<Rightarrow> (Response (Errors_body errors) 400, None, db)))"

text \<open>
  \<^verbatim>\<open>destroy\<close>: \<^verbatim>\<open>Issue.objects.get\<close> raises unless exactly one row matches;
  \<^verbatim>\<open>issue.delete()\<close> deletes the row of that key.
\<close>

definition IssueViewSet_destroy ::
  "database \<Rightarrow> datetime \<Rightarrow> request \<Rightarrow> string \<Rightarrow> uuid \<Rightarrow> uuid
     \<Rightarrow> outcome \<times> activity option \<times> database" where
  "IssueViewSet_destroy db now request slug project_id' pk' =
     (case filter (\<lambda>i. workspace_slug i = slug \<and> project_id i = project_id' \<and> pk i = pk')
             (Issue_objects db) of
        [] \<Rightarrow> (Raise DoesNotExist, None, db)
      | [i] \<Rightarrow>
          (Response No_body 204,
           Some (Issue_activity ''issue.activity.deleted'' (JObj [(''issue_id'', JStr pk')])
                   (user request) pk' project_id' None),
           queryset_delete db now (\<lambda>j. pk j = pk i))
      | _ \<Rightarrow> (Raise MultipleObjectsReturned, None, db))"

subsection \<open>IssueUserDisplayPropertyEndpoint\<close>

text \<open>
  \<^verbatim>\<open>IssueUserProperty.objects.get(user=..., project_id=...)\<close>: the one matching row;
  \<^verbatim>\<open>DoesNotExist\<close> when there is none, \<^verbatim>\<open>MultipleObjectsReturned\<close> when there are several.
\<close>

definition IssueUserProperty_objects_get ::
  "database \<Rightarrow> uuid \<Rightarrow> uuid \<Rightarrow> exn + issue_user_property" where
  "IssueUserProperty_objects_get db u project_id' =
     (case filter (\<lambda>r. iup_user r = u \<and> iup_project_id r = project_id')
             (issue_user_properties db) of
        [] \<Rightarrow> Inl DoesNotExist
      | [r] \<Rightarrow> Inr r
      | _ \<Rightarrow> Inl MultipleObjectsReturned)"

text \<open>
  \<^verbatim>\<open>get_or_create\<close>: the matching row, or a new row with the column defaults under the
  fresh key \<open>new_pk\<close>; with the row, whether it was created, and the store.
\<close>

definition IssueUserProperty_objects_get_or_create ::
  "collab \<Rightarrow> database \<Rightarrow> uuid \<Rightarrow> uuid \<Rightarrow> uuid
     \<Rightarrow> exn + (issue_user_property \<times> bool \<times> database)" where
  "IssueUserProperty_objects_get_or_create c db new_pk u project_id' =
     (case IssueUserProperty_objects_get db u project_id' of
        Inr r \<Rightarrow> Inr (r, False, db)
      | Inl DoesNotExist \<Rightarrow>
          (let r = \<lparr>iup_pk = new_pk, iup_user = u, iup_project_id = project_id',
                    filters = default_filters c,
                    display_filters = default_display_filters c,
                    display_properties = default_display_properties c\<rparr>
           in Inr (r, True, db\<lparr>issue_user_properties := issue_user_properties db @ [r]\<rparr>))
      | Inl e \<Rightarrow> Inl e)"

text \<open>\<^verbatim>\<open>instance.save()\<close> of a stored row: the row of its key is overwritten.\<close>

definition issue_property_save :: "database \<Rightarrow> issue_user_property \<Rightarrow> database" where
  "issue_property_save db r =
     db\<lparr>issue_user_properties :=
          map (\<lambda>x. if iup_pk x = iup_pk r then r else x) (issue_user_properties db)\<rparr>"

text \<open>\<^verbatim>\<open>request.data.get(key, default)\<close>, the payload being a map from keys to values.\<close>

definition data_get :: "(string \<rightharpoonup> json) \<Rightarrow> string \<Rightarrow> json \<Rightarrow> json" where
  "data_get data key dflt = (case data key of None \<Rightarrow> dflt | Some v \<Rightarrow> v)"

definition IssueUserDisplayPropertyEndpoint_patch ::
  "database \<Rightarrow> request \<Rightarrow> (string \<rightharpoonup> json) \<Rightarrow> string \<Rightarrow> uuid \<Rightarrow> outcome \<times> database" where
  "IssueUserDisplayPropertyEndpoint_patch db request data slug project_id' =
     (case IssueUserProperty_objects_get db (user request) project_id' of
        Inl e \<Rightarrow> (Raise e, db)
      | Inr issue_property \<Rightarrow>
          let issue_property = issue_property
                \<lparr>filters := data_get data ''filters'' (filters issue_property)\<rparr>;
              issue_property = issue_property
                \<lparr>display_filters :=
                   data_get data ''display_filters'' (display_filters issue_property)\<rparr>;
              issue_property = issue_property
                \<lparr>display_properties :=
                   data_get data ''display_properties'' (display_properties issue_property)\<rparr>
          in (Response (Property_body issue_property) 201,
              issue_property_save db issue_property))"

definition IssueUserDisplayPropertyEndpoint_get ::
  "collab \<Rightarrow> database \<Rightarrow> uuid \<Rightarrow> request \<Rightarrow> string \<Rightarrow> uuid \<Rightarrow> outcome \<times> database" where
  "IssueUserDisplayPropertyEndpoint_get c db new_pk request slug project_id' =
     (case IssueUserProperty_objects_get_or_create c db new_pk (user request) project_id' of
        Inl e \<Rightarrow> (Raise e, db)
      | Inr (issue_property, _, db') \<Rightarrow> (Response (Property_body issue_property) 200, db'))"

subsection \<open>IssuePaginatedViewSet\<close>

definition IssuePaginatedViewSet_get_queryset :: "database \<Rightarrow> string \<Rightarrow> uuid \<Rightarrow> issue list" where
  "IssuePaginatedViewSet_get_queryset db slug project_id' =
     remdups
       (filter (\<lambda>i. workspace_slug i = slug \<and> project_id i = project_id') (issue_objects db))"

text \<open>
  \<^verbatim>\<open>.order_by("updated_at")\<close>: ascending by the column. The store leaves the order of
  rows with equal keys open; the model keeps them in table order.
\<close>

definition order_by_updated_at :: "issue list \<Rightarrow> issue list" where
  "order_by_updated_at q = sort_key updated_at q"

text \<open>The annotation of \<^verbatim>\<open>IssuePaginatedViewSet.list\<close> on one row.\<close>

definition IssuePaginatedViewSet_annotate :: "database \<Rightarrow> issue \<Rightarrow> annotated_issue" where
  "IssuePaginatedViewSet_annotate db i =
     \<lparr>row = i, label_ids = agg_label_ids db i, assignee_ids = agg_assignee_ids db i,
      module_ids = agg_module_ids db i\<rparr>"

text \<open>
  \<^verbatim>\<open>list\<close>. A value of \<^verbatim>\<open>updated_at__gte\<close> that is no datetime is refused by the
  lookup with a validation error.
\<close>

definition IssuePaginatedViewSet_list ::
  "collab \<Rightarrow> database \<Rightarrow> request \<Rightarrow> string \<Rightarrow> uuid \<Rightarrow> outcome" where
  "IssuePaginatedViewSet_list c db request slug project_id' =
     (let cursor = qget (GET request) ''cursor'';
          is_description_required = truthy (qget (GET request) ''description'');
          updated_at' = qget (GET request) ''updated_at__gte'';
          base_queryset = order_by_updated_at
            (filter (\<lambda>i. workspace_slug i = slug \<and> project_id i = project_id') (issue_objects db));
          queryset = order_by_updated_at (IssuePaginatedViewSet_get_queryset db slug project_id')
      in if truthy updated_at' then
           (case parse_datetime c (case updated_at' of None \<Rightarrow> [] | Some s \<Rightarrow> s) of
              None \<Rightarrow> Raise ValidationError
            | Some t \<Rightarrow>
                Global_paginate
                  (filter (\<lambda>i. t \<le> updated_at i) base_queryset)
                  (map (IssuePaginatedViewSet_annotate db)
                     (filter (\<lambda>i. t \<le> updated_at i) queryset))
                  cursor is_description_required)
         else Global_paginate base_queryset
                (map (IssuePaginatedViewSet_annotate db) queryset)
                cursor is_description_required)"

text \<open>
  Modelled from the spec: \<^verbatim>\<open>paginate\<close> of \<^verbatim>\<open>plane.utils.global_paginator\<close> is not among
  the source files. By the spec's data model a page is "a bounded slice of results": page
  number \<open>k\<close> of size \<open>n\<close> is the \<open>n\<close> results after the first \<open>k * n\<close>.
\<close>

definition page :: "'a list \<Rightarrow> nat \<Rightarrow> nat \<Rightarrow> 'a list" where
  "page results n k = take n (drop (k * n) results)"

subsection \<open>Concrete stores and collaborators\<close>

text \<open>
  Collaborators for concrete runs: no filter, the order kept, no change by the grouper, a
  serializer that accepts and stores nothing new, datetimes written as a count of
  \<open>x\<close> characters.
\<close>

definition collab0 :: collab where
  "collab0 =
     \<lparr>issue_filters = (\<lambda>params i. True),
      order_issue_queryset = (\<lambda>q order_by_param. (q, order_by_param)),
      issue_queryset_grouper = (\<lambda>q group_by sub_group_by. q),
      IssueCreateSerializer_save = (\<lambda>db i data. Inr db),
      parse_datetime = (\<lambda>s. if s \<noteq> [] \<and> set s \<subseteq> {CHR ''x''} then Some (int (length s)) else None),
      default_filters = JObj [],
      default_display_filters = JObj [],
      default_display_properties = JObj []\<rparr>"

text \<open>
  A store for concrete runs: workspace \<open>acme\<close> with projects \<open>p1\<close> and \<open>p2\<close>. In \<open>p1\<close>,
  alice holds role 5, bob role 15, and carol's membership is inactive. Issue \<open>i3\<close> is
  soft-deleted; module \<open>m2\<close> is archived; \<open>i1\<close> is in both modules and assigned to bob
  and carol.
\<close>

definition issue_1 :: issue where
  "issue_1 = \<lparr>pk = ''i1'', workspace_slug = ''acme'', project_id = ''p1'',
              created_by = Some ''alice'', updated_at = 10, deleted_at = None\<rparr>"

definition issue_2 :: issue where
  "issue_2 = \<lparr>pk = ''i2'', workspace_slug = ''acme'', project_id = ''p1'',
              created_by = Some ''bob'', updated_at = 5, deleted_at = None\<rparr>"

definition issue_3 :: issue where
  "issue_3 = \<lparr>pk = ''i3'', workspace_slug = ''acme'', project_id = ''p1'',
              created_by = Some ''bob'', updated_at = 7, deleted_at = Some 8\<rparr>"

definition issue_4 :: issue where
  "issue_4 = \<lparr>pk = ''i4'', workspace_slug = ''acme'', project_id = ''p2'',
              created_by = Some ''alice'', updated_at = 3, deleted_at = None\<rparr>"

definition property_1 :: issue_user_property where
  "property_1 = \<lparr>iup_pk = ''u1'', iup_user = ''alice'', iup_project_id = ''p1'',
                 filters = JObj [(''priority'', JArr [JStr ''high''])],
                 display_filters = JObj [(''group_by'', JStr ''state'')],
                 display_properties = JObj [(''key'', JBool True)]\<rparr>"

definition db0 :: database where
  "db0 =
     \<lparr>issues = [issue_1, issue_2, issue_3, issue_4],
      project_members =
        [\<lparr>pm_workspace_slug = ''acme'', pm_project_id = ''p1'', pm_member = ''alice'',
          pm_role = 5, pm_is_active = True\<rparr>,
         \<lparr>pm_workspace_slug = ''acme'', pm_project_id = ''p1'', pm_member = ''bob'',
          pm_role = 15, pm_is_active = True\<rparr>,
         \<lparr>pm_workspace_slug = ''acme'', pm_project_id = ''p1'', pm_member = ''carol'',
          pm_role = 15, pm_is_active = False\<rparr>],
      modules =
        [\<lparr>module_pk = ''m1'', module_archived_at = None\<rparr>,
         \<lparr>module_pk = ''m2'', module_archived_at = Some 4\<rparr>],
      issue_module = [(''i1'', ''m1''), (''i1'', ''m2'')],
      issue_assignee = [(''i1'', ''bob''), (''i1'', ''carol'')],
      issue_label = [(''i1'', ''l1'')],
      issue_user_properties = [property_1]\<rparr>"

text \<open>A request of the given user with the given query string, no fields and no expand.\<close>

definition req :: "uuid \<Rightarrow> (string \<times> string) list \<Rightarrow> request" where
  "req u params = \<lparr>user = u, GET = params, fields_or_expand = False\<rparr>"

section \<open>Properties\<close>

text \<open>
  C6. A bulk delete whose \<^verbatim>\<open>issue_ids\<close> is the empty list (or is absent) answers 400
  with the message "Issue IDs are required" and leaves the store as it was; it is not a
  success with count 0.
\<close>

theorem bulk_delete_empty_is_400:
  "BulkDeleteIssuesEndpoint_delete db now slug p (Some []) =
     (Response (Error_body ''Issue IDs are required'') 400, db)
   \<and> BulkDeleteIssuesEndpoint_delete db now slug p None =
     (Response (Error_body ''Issue IDs are required'') 400, db)
   \<and> fst (BulkDeleteIssuesEndpoint_delete db now slug p (Some [])) \<noteq> Response (Deleted_message 0) 200"
  by (simp add: BulkDeleteIssuesEndpoint_delete_def)

subsection \<open>Unfolding sets\<close>

lemmas store0_defs = db0_def issue_1_def issue_2_def issue_3_def issue_4_def property_1_def
  collab0_def req_def

lemmas manager_defs = issue_objects_def issue_objects_row_def Issue_objects_def
  Issue_objects_row_def

lemmas list_defs = IssueViewSet_list_def IssueViewSet_list_issue_queryset_def
  IssueViewSet_get_queryset_def role_5_member_def qget_def truthy_def Let_def

subsection \<open>IssueViewSet.list: the role 5 narrowing\<close>

text \<open>
  C1. Whenever \<^verbatim>\<open>list\<close> hands a queryset to the paginator: if the requesting user has an
  active membership of the project with role 5, the queryset is the grouped queryset
  narrowed to the issues whose \<^verbatim>\<open>created_by\<close> is that user, so it holds only such issues;
  if the user has no such membership, the queryset is the grouped queryset itself, not
  narrowed by creator. (The only other outcome of \<^verbatim>\<open>list\<close> is the 400 of C2, which lists
  nothing.)
\<close>

theorem list_role_5_sees_own_issues:
  assumes "IssueViewSet_list c db r slug p = Paginate cls q ob g sg"
  shows "if role_5_member db slug p (user r)
         then q = filter (\<lambda>i. created_by i = Some (user r))
                    (fst (IssueViewSet_list_issue_queryset c db r slug p))
              \<and> (\<forall>i \<in> set q. created_by i = Some (user r))
         else q = fst (IssueViewSet_list_issue_queryset c db r slug p)"
  using assms
  by (auto simp: IssueViewSet_list_def Let_def split: if_splits)

text \<open>
  On the concrete store alice (role 5) is listed her own issue only, bob (role 15) both
  live issues of the project.
\<close>

theorem list_role_5_sees_own_issues_witness:
  "IssueViewSet_list collab0 db0 (req ''alice'' []) ''acme'' ''p1'' =
     Paginate OffsetPaginator [issue_1] ''-created_at'' None None
   \<and> role_5_member db0 ''acme'' ''p1'' ''alice''
   \<and> fst (IssueViewSet_list_issue_queryset collab0 db0 (req ''alice'' []) ''acme'' ''p1'') =
       [issue_1, issue_2]
   \<and> created_by issue_1 = Some ''alice''
   \<and> IssueViewSet_list collab0 db0 (req ''bob'' []) ''acme'' ''p1'' =
     Paginate OffsetPaginator [issue_1, issue_2] ''-created_at'' None None
   \<and> \<not> role_5_member db0 ''acme'' ''p1'' ''bob''"
proof -
  have a: "IssueViewSet_list collab0 db0 (req ''alice'' []) ''acme'' ''p1'' =
     Paginate OffsetPaginator [issue_1] ''-created_at'' None None"
    by (simp add: list_defs manager_defs store0_defs)
  have b: "IssueViewSet_list collab0 db0 (req ''bob'' []) ''acme'' ''p1'' =
     Paginate OffsetPaginator [issue_1, issue_2] ''-created_at'' None None"
    by (simp add: list_defs manager_defs store0_defs)
  have ra: "role_5_member db0 ''acme'' ''p1'' ''alice''"
    by (simp add: role_5_member_def store0_defs)
  have rb: "\<not> role_5_member db0 ''acme'' ''p1'' ''bob''"
    by (simp add: role_5_member_def store0_defs)
  from list_role_5_sees_own_issues [OF a] ra
  have "created_by issue_1 = Some ''alice''"
    by (simp add: req_def)
  moreover from list_role_5_sees_own_issues [OF b] rb
  have "fst (IssueViewSet_list_issue_queryset collab0 db0 (req ''bob'' []) ''acme'' ''p1'') =
       [issue_1, issue_2]"
    by (simp add: req_def)
  moreover have "IssueViewSet_list_issue_queryset collab0 db0 (req ''alice'' []) ''acme'' ''p1''
      = IssueViewSet_list_issue_queryset collab0 db0 (req ''bob'' []) ''acme'' ''p1''"
    by (simp add: IssueViewSet_list_issue_queryset_def collab0_def req_def)
  ultimately show ?thesis using a b ra rb by simp
qed

subsection \<open>IssueViewSet.list: equal group and sub-group\<close>

text \<open>
  C2, as stated, fails where both parameters are supplied as the empty string: they are
  equal, and \<^verbatim>\<open>list\<close> hands the plain queryset to the paginator instead of answering
  400, because it tests the truth of each parameter before it compares them.
\<close>

theorem list_same_empty_group_by_counterexample:
  "qget (GET (req ''bob'' [(''group_by'', ''''), (''sub_group_by'', '''')])) ''group_by'' = Some ''''
   \<and> qget (GET (req ''bob'' [(''group_by'', ''''), (''sub_group_by'', '''')])) ''sub_group_by''
       = Some ''''
   \<and> IssueViewSet_list collab0 db0 (req ''bob'' [(''group_by'', ''''), (''sub_group_by'', '''')])
       ''acme'' ''p1'' =
     Paginate OffsetPaginator [issue_1, issue_2] ''-created_at'' None None"
  by (simp add: list_defs manager_defs store0_defs)

text \<open>
  C2, amended. \<^verbatim>\<open>list\<close> answers 400 with the message "Group by and sub group by cannot
  have same parameters" exactly when \<^verbatim>\<open>group_by\<close> and \<^verbatim>\<open>sub_group_by\<close> are both supplied,
  not empty and equal, whatever the other parameters, the store and the collaborators are;
  in every other case (one of them absent or empty, or the two different) it hands a
  queryset to the paginator. The answer 400 is the whole outcome: no queryset is handed to
  a paginator then.
\<close>

theorem list_same_group_by_is_400:
  "(IssueViewSet_list c db r slug p =
      Response (Error_body ''Group by and sub group by cannot have same parameters'') 400)
     = (\<exists>g. g \<noteq> [] \<and> qget (GET r) ''group_by'' = Some g \<and> qget (GET r) ''sub_group_by'' = Some g)
   \<and> (\<exists>cls q ob g sg. IssueViewSet_list c db r slug p = Paginate cls q ob g sg)
     = (\<not> (\<exists>g. g \<noteq> [] \<and> qget (GET r) ''group_by'' = Some g
              \<and> qget (GET r) ''sub_group_by'' = Some g))"
  by (auto simp: IssueViewSet_list_def Let_def truthy_def split: if_splits option.splits)

subsection \<open>BulkDeleteIssuesEndpoint.delete: the count and the rows deleted\<close>

text \<open>Rows with distinct keys: as many rows satisfy a condition as keys of such rows.\<close>

lemma length_filter_card_pk:
  assumes "distinct (map pk xs)"
  shows "length (filter P xs) = card (pk ` {i \<in> set xs. P i})"
proof -
  have d: "distinct (map pk (filter P xs))"
    using assms by (rule distinct_map_filter)
  have "card (pk ` {i \<in> set xs. P i}) = card (set (map pk (filter P xs)))"
    by (simp add: image_def)
  also have "\<dots> = length (map pk (filter P xs))"
    using d by (rule distinct_card)
  finally show ?thesis by simp
qed

text \<open>
  C5. With \<^verbatim>\<open>issue_objects\<close> as the spec describes it, and keys that identify rows
  (the primary key is unique), a bulk delete with a non-empty \<^verbatim>\<open>issue_ids\<close> answers 200
  with the number of given ids that are the key of an issue of the workspace and project
  that is not soft-deleted; ids of other projects and ids of no issue raise nothing and
  count for nothing; and exactly the issues so matched are deleted (their marker is set to
  the time of the call), every other row staying as it was.
\<close>

theorem bulk_delete_count_and_effect:
  assumes "distinct (map pk (issues db))" and "issue_ids \<noteq> []"
  shows "BulkDeleteIssuesEndpoint_delete db now slug p (Some issue_ids) =
     (Response (Deleted_message (card {x \<in> set issue_ids. \<exists>i \<in> set (issues db).
          pk i = x \<and> deleted_at i = None \<and> workspace_slug i = slug \<and> project_id i = p})) 200,
      db\<lparr>issues := map (\<lambda>i. if deleted_at i = None \<and> workspace_slug i = slug \<and> project_id i = p
                                  \<and> pk i \<in> set issue_ids
                               then i\<lparr>deleted_at := Some now\<rparr> else i) (issues db)\<rparr>)"
proof -
  let ?c = "\<lambda>i. workspace_slug i = slug \<and> project_id i = p \<and> pk i \<in> set issue_ids"
  have "length (filter ?c (issue_objects db)) =
        length (filter (\<lambda>i. deleted_at i = None \<and> ?c i) (issues db))"
    by (simp add: issue_objects_def issue_objects_row_def conj_commute)
  also have "\<dots> = card (pk ` {i \<in> set (issues db). deleted_at i = None \<and> ?c i})"
    using assms(1) by (rule length_filter_card_pk)
  also have "pk ` {i \<in> set (issues db). deleted_at i = None \<and> ?c i} =
     {x \<in> set issue_ids. \<exists>i \<in> set (issues db).
          pk i = x \<and> deleted_at i = None \<and> workspace_slug i = slug \<and> project_id i = p}"
    by auto
  finally have n: "length (filter ?c (issue_objects db)) =
     card {x \<in> set issue_ids. \<exists>i \<in> set (issues db).
          pk i = x \<and> deleted_at i = None \<and> workspace_slug i = slug \<and> project_id i = p}" .
  show ?thesis
    using assms(2) n
    by (simp add: BulkDeleteIssuesEndpoint_delete_def Let_def queryset_delete_def
        issue_objects_row_def)
qed

text \<open>
  On the concrete store, of the four ids given one is counted and deleted: \<open>i3\<close> is
  soft-deleted already, \<open>i4\<close> is of another project, \<open>zz\<close> is no issue.
\<close>

theorem bulk_delete_count_and_effect_witness:
  "distinct (map pk (issues db0))
   \<and> BulkDeleteIssuesEndpoint_delete db0 20 ''acme'' ''p1'' (Some [''i1'', ''i3'', ''i4'', ''zz'']) =
       (Response (Deleted_message 1) 200,
        db0\<lparr>issues := [issue_1\<lparr>deleted_at := Some 20\<rparr>, issue_2, issue_3, issue_4]\<rparr>)
   \<and> card {x \<in> set [''i1'', ''i3'', ''i4'', ''zz'']. \<exists>i \<in> set (issues db0).
          pk i = x \<and> deleted_at i = None \<and> workspace_slug i = ''acme'' \<and> project_id i = ''p1''} = 1"
proof -
  have d: "distinct (map pk (issues db0))"
    by (simp add: store0_defs)
  have n: "[''i1'', ''i3'', ''i4'', ''zz''] \<noteq> ([] :: uuid list)"
    by simp
  have e: "BulkDeleteIssuesEndpoint_delete db0 20 ''acme'' ''p1''
             (Some [''i1'', ''i3'', ''i4'', ''zz'']) =
       (Response (Deleted_message 1) 200,
        db0\<lparr>issues := [issue_1\<lparr>deleted_at := Some 20\<rparr>, issue_2, issue_3, issue_4]\<rparr>)"
    by (simp add: BulkDeleteIssuesEndpoint_delete_def queryset_delete_def manager_defs
        store0_defs Let_def)
  from bulk_delete_count_and_effect [OF d n, of 20 "''acme''" "''p1''"] e show ?thesis
    using d by simp
qed

subsection \<open>The aggregated id lists\<close>

text \<open>
  The \<^verbatim>\<open>module_ids\<close> aggregate of \<^verbatim>\<open>retrieve\<close> and of the paginated list holds modules
  of the issue that are not archived, the \<^verbatim>\<open>assignee_ids\<close> aggregate assignees of the
  issue that have an active project membership.
\<close>

lemma agg_module_ids_non_archived:
  "m \<in> set (agg_module_ids db i) \<Longrightarrow>
     (pk i, m) \<in> set (issue_module db)
     \<and> (\<exists>r \<in> set (modules db). module_pk r = m \<and> module_archived_at r = None)"
  by (auto simp: agg_module_ids_def list_ex_iff)

lemma agg_assignee_ids_active:
  "a \<in> set (agg_assignee_ids db i) \<Longrightarrow>
     (pk i, a) \<in> set (issue_assignee db)
     \<and> (\<exists>m \<in> set (project_members db). pm_member m = a \<and> pm_is_active m)"
  by (auto simp: agg_assignee_ids_def list_ex_iff)

lemma retrieve_ids_filtered:
  assumes "IssueViewSet_retrieve db r slug p k = Response (Issue_detail a) 200"
  shows "(\<forall>m \<in> set (module_ids a). \<exists>x \<in> set (modules db). module_pk x = m \<and> module_archived_at x = None)
     \<and> (\<forall>u \<in> set (assignee_ids a). \<exists>m \<in> set (project_members db). pm_member m = u \<and> pm_is_active m)"
  using assms
  by (auto simp: IssueViewSet_retrieve_def split: option.splits
      dest: agg_module_ids_non_archived agg_assignee_ids_active)

lemma paginated_list_rows_annotated:
  assumes "IssuePaginatedViewSet_list c db r slug p = Global_paginate bq q cur d"
  shows "\<exists>xs. q = map (IssuePaginatedViewSet_annotate db) xs"
  using assms
  by (auto simp: IssuePaginatedViewSet_list_def Let_def split: if_splits option.splits)

lemma paginated_list_ids_filtered:
  assumes "IssuePaginatedViewSet_list c db r slug p = Global_paginate bq q cur d"
    and "a \<in> set q"
  shows "(\<forall>m \<in> set (module_ids a). \<exists>x \<in> set (modules db). module_pk x = m \<and> module_archived_at x = None)
     \<and> (\<forall>u \<in> set (assignee_ids a). \<exists>m \<in> set (project_members db). pm_member m = u \<and> pm_is_active m)"
proof -
  from paginated_list_rows_annotated [OF assms(1)] assms(2)
  obtain i where a: "a = IssuePaginatedViewSet_annotate db i"
    by auto
  have "module_ids a = agg_module_ids db i" and "assignee_ids a = agg_assignee_ids db i"
    by (simp_all add: a IssuePaginatedViewSet_annotate_def)
  then show ?thesis
    using agg_module_ids_non_archived [of _ db i] agg_assignee_ids_active [of _ db i]
    by auto
qed

text \<open>
  C3 does not hold of \<^verbatim>\<open>partial_update\<close>: its \<^verbatim>\<open>module_ids\<close> aggregate has no
  \<^verbatim>\<open>archived_at\<close> condition. On the concrete store issue \<open>i1\<close> is in module \<open>m1\<close> and in
  the archived module \<open>m2\<close>: the instance \<^verbatim>\<open>partial_update\<close> annotates (and passes to
  the activity task) lists both, while \<^verbatim>\<open>retrieve\<close> lists \<open>m1\<close> only.
\<close>

theorem partial_update_module_ids_keep_archived:
  "IssueViewSet_partial_update collab0 db0 (req ''bob'' []) (JObj [(''name'', JStr ''x'')])
       ''acme'' ''p1'' ''i1'' =
     (Response No_body 204,
      Some (Issue_activity ''issue.activity.updated'' (JObj [(''name'', JStr ''x'')]) ''bob'' ''i1'' ''p1''
        (Some \<lparr>row = issue_1, label_ids = [''l1''], assignee_ids = [''bob''],
               module_ids = [''m1'', ''m2'']\<rparr>)),
      db0)
   \<and> module_archived_at \<lparr>module_pk = ''m2'', module_archived_at = Some 4\<rparr> = Some 4
   \<and> \<lparr>module_pk = ''m2'', module_archived_at = Some 4\<rparr> \<in> set (modules db0)
   \<and> IssueViewSet_retrieve db0 (req ''bob'' []) ''acme'' ''p1'' ''i1'' =
     Response (Issue_detail \<lparr>row = issue_1, label_ids = [''l1''], assignee_ids = [''bob''],
               module_ids = [''m1'']\<rparr>) 200"
  by (simp add: IssueViewSet_partial_update_def IssueViewSet_retrieve_def first_def
      IssueViewSet_get_queryset_def agg_label_ids_def agg_assignee_ids_def agg_module_ids_def
      agg_module_ids_partial_update_def manager_defs store0_defs)

subsection \<open>Soft-deleted issues are outside every query\<close>

text \<open>
  Each queryset of the file starts at a manager and only narrows it, so its rows are rows
  of the manager: rows whose \<^verbatim>\<open>deleted_at\<close> is null.
\<close>

lemma issue_objects_live: "i \<in> set (issue_objects db) \<Longrightarrow> deleted_at i = None"
  by (simp add: issue_objects_def issue_objects_row_def)

lemma Issue_objects_live: "i \<in> set (Issue_objects db) \<Longrightarrow> deleted_at i = None"
  by (simp add: Issue_objects_def Issue_objects_row_def)

lemma list_endpoint_queryset_live:
  "i \<in> set (IssueListEndpoint_queryset db slug p ids) \<Longrightarrow> deleted_at i = None"
  by (auto simp: IssueListEndpoint_queryset_def dest: issue_objects_live)

lemma get_queryset_live:
  "i \<in> set (IssueViewSet_get_queryset db slug p) \<Longrightarrow> deleted_at i = None"
  by (auto simp: IssueViewSet_get_queryset_def dest: issue_objects_live)

lemma paginated_get_queryset_live:
  "i \<in> set (IssuePaginatedViewSet_get_queryset db slug p) \<Longrightarrow> deleted_at i = None"
  by (auto simp: IssuePaginatedViewSet_get_queryset_def dest: issue_objects_live)

lemma selects_rows_order:
  "selects_rows c \<Longrightarrow> i \<in> set (fst (order_issue_queryset c q ob)) \<Longrightarrow> i \<in> set q"
  unfolding selects_rows_def by blast

lemma selects_rows_grouper:
  "selects_rows c \<Longrightarrow> i \<in> set (issue_queryset_grouper c q g sg) \<Longrightarrow> i \<in> set q"
  unfolding selects_rows_def by blast

lemma list_endpoint_get_live:
  assumes "selects_rows c"
    and "IssueListEndpoint_get c db r slug p = Response (Issues_body q) 200"
    and "i \<in> set q"
  shows "deleted_at i = None"
proof (cases "fields_or_expand r")
  case True
  with assms(2,3) show ?thesis
    by (auto simp: IssueListEndpoint_get_def Let_def split: if_splits
        dest: list_endpoint_queryset_live)
next
  case False
  with assms(2,3) obtain ids ob g sg where
    "i \<in> set (issue_queryset_grouper c (fst (order_issue_queryset c
        (filter (issue_filters c (GET r)) (IssueListEndpoint_queryset db slug p ids)) ob)) g sg)"
    by (auto simp: IssueListEndpoint_get_def Let_def split: if_splits)
  then have "i \<in> set (fst (order_issue_queryset c
        (filter (issue_filters c (GET r)) (IssueListEndpoint_queryset db slug p ids)) ob))"
    by (rule selects_rows_grouper [OF assms(1)])
  then have "i \<in> set (filter (issue_filters c (GET r)) (IssueListEndpoint_queryset db slug p ids))"
    by (rule selects_rows_order [OF assms(1)])
  then have "i \<in> set (IssueListEndpoint_queryset db slug p ids)"
    by simp
  then show ?thesis by (rule list_endpoint_queryset_live)
qed

lemma list_issue_queryset_live:
  assumes "selects_rows c"
    and "i \<in> set (fst (IssueViewSet_list_issue_queryset c db r slug p))"
  shows "deleted_at i = None"
proof -
  from assms(2) obtain ob g sg where
    "i \<in> set (issue_queryset_grouper c (fst (order_issue_queryset c
        (filter (issue_filters c (GET r)) (IssueViewSet_get_queryset db slug p)) ob)) g sg)"
    by (auto simp: IssueViewSet_list_issue_queryset_def Let_def)
  then have "i \<in> set (fst (order_issue_queryset c
        (filter (issue_filters c (GET r)) (IssueViewSet_get_queryset db slug p)) ob))"
    by (rule selects_rows_grouper [OF assms(1)])
  then have "i \<in> set (filter (issue_filters c (GET r)) (IssueViewSet_get_queryset db slug p))"
    by (rule selects_rows_order [OF assms(1)])
  then have "i \<in> set (IssueViewSet_get_queryset db slug p)"
    by simp
  then show ?thesis by (rule get_queryset_live)
qed

lemma list_live:
  assumes "selects_rows c"
    and "IssueViewSet_list c db r slug p = Paginate cls q ob g sg"
    and "i \<in> set q"
  shows "deleted_at i = None"
proof -
  from assms(2,3) have "i \<in> set (fst (IssueViewSet_list_issue_queryset c db r slug p))"
    by (auto simp: IssueViewSet_list_def Let_def split: if_splits)
  with assms(1) show ?thesis by (rule list_issue_queryset_live)
qed

lemma first_in_set: "first q = Some x \<Longrightarrow> x \<in> set q"
  by (auto simp: first_def split: list.splits)

lemma retrieve_live:
  assumes "IssueViewSet_retrieve db r slug p k = Response (Issue_detail a) 200"
  shows "deleted_at (row a) = None \<and> pk (row a) = k"
proof -
  from assms obtain i where
    f: "first (filter (\<lambda>i. pk i = k) (IssueViewSet_get_queryset db slug p)) = Some i"
    and a: "row a = i"
    by (auto simp: IssueViewSet_retrieve_def split: option.splits)
  from first_in_set [OF f] have "i \<in> set (IssueViewSet_get_queryset db slug p)" "pk i = k"
    by auto
  with a show ?thesis by (auto dest: get_queryset_live)
qed

lemma partial_update_live:
  assumes "IssueViewSet_partial_update c db r data slug p k =
             (out, Some (Issue_activity t rd u k' p' (Some a)), db')"
  shows "deleted_at (row a) = None \<and> pk (row a) = k"
proof -
  from assms obtain i where
    f: "first (filter (\<lambda>i. pk i = k) (IssueViewSet_get_queryset db slug p)) = Some i"
    and a: "row a = i"
    by (auto simp: IssueViewSet_partial_update_def Let_def split: option.splits sum.splits)
  from first_in_set [OF f] have "i \<in> set (IssueViewSet_get_queryset db slug p)" "pk i = k"
    by auto
  with a show ?thesis by (auto dest: get_queryset_live)
qed

lemma set_order_by_updated_at [simp]: "set (order_by_updated_at q) = set q"
  by (simp add: order_by_updated_at_def)

lemma row_annotate [simp]: "row (IssuePaginatedViewSet_annotate db i) = i"
  by (simp add: IssuePaginatedViewSet_annotate_def)

lemma paginated_list_rows:
  assumes "IssuePaginatedViewSet_list c db r slug p = Global_paginate bq q cur d"
  shows "set bq \<subseteq> set (issue_objects db)
     \<and> row ` set q \<subseteq> set (IssuePaginatedViewSet_get_queryset db slug p)"
  using assms
  by (auto simp: IssuePaginatedViewSet_list_def Let_def split: if_splits option.splits)

lemma paginated_list_live:
  assumes "IssuePaginatedViewSet_list c db r slug p = Global_paginate bq q cur d"
  shows "(\<forall>i \<in> set bq. deleted_at i = None) \<and> (\<forall>a \<in> set q. deleted_at (row a) = None)"
  using paginated_list_rows [OF assms] issue_objects_live [of _ db]
    paginated_get_queryset_live [of _ db slug p]
  by blast

lemma bulk_delete_targets_live:
  assumes "n < length (issues db)"
    and "issues (snd (BulkDeleteIssuesEndpoint_delete db now slug p ids)) ! n \<noteq> issues db ! n"
  shows "deleted_at (issues db ! n) = None"
  using assms
  by (auto simp: BulkDeleteIssuesEndpoint_delete_def Let_def queryset_delete_def
      issue_objects_row_def split: if_splits)

lemma destroy_target_live:
  assumes "fst (IssueViewSet_destroy db now r slug p k) = Response No_body 204"
  shows "\<exists>i \<in> set (issues db). pk i = k \<and> workspace_slug i = slug \<and> project_id i = p
            \<and> deleted_at i = None"
proof -
  from assms obtain i where
    "filter (\<lambda>i. workspace_slug i = slug \<and> project_id i = p \<and> pk i = k) (Issue_objects db) = [i]"
    by (auto simp: IssueViewSet_destroy_def split: list.splits)
  then have "i \<in> set (filter (\<lambda>i. workspace_slug i = slug \<and> project_id i = p \<and> pk i = k)
                  (Issue_objects db))"
    by simp
  then show ?thesis
    by (auto simp: Issue_objects_def Issue_objects_row_def)
qed

lemma destroy_soft_deleted_not_found:
  assumes "\<forall>i \<in> set (issues db). pk i = k \<longrightarrow> deleted_at i \<noteq> None"
  shows "IssueViewSet_destroy db now r slug p k = (Raise DoesNotExist, None, db)"
proof -
  have "filter (\<lambda>i. workspace_slug i = slug \<and> project_id i = p \<and> pk i = k) (Issue_objects db) = []"
    using assms by (auto simp: filter_empty_conv Issue_objects_def Issue_objects_row_def)
  then show ?thesis by (simp add: IssueViewSet_destroy_def)
qed

text \<open>
  C4. With the managers \<^verbatim>\<open>Issue.issue_objects\<close> and \<^verbatim>\<open>Issue.objects\<close> as the spec
  describes the default queries, and collaborators that return only rows they were given:
  no issue in a queryset of \<^verbatim>\<open>IssueListEndpoint.get\<close>, of \<^verbatim>\<open>IssueViewSet\<close>'s
  \<^verbatim>\<open>list\<close>, \<^verbatim>\<open>retrieve\<close> and \<^verbatim>\<open>partial_update\<close>, or of \<^verbatim>\<open>IssuePaginatedViewSet.list\<close>,
  and no issue they return or update, has a \<^verbatim>\<open>deleted_at\<close>; a bulk delete changes only
  rows that had none; and \<^verbatim>\<open>destroy\<close> deletes only when its lookup finds a row that has
  none, and raises \<^verbatim>\<open>DoesNotExist\<close> when every row of the key is soft-deleted.
\<close>

theorem default_queries_exclude_soft_deleted:
  assumes "selects_rows c"
  shows "(\<forall>i \<in> set (IssueListEndpoint_queryset db slug p ids). deleted_at i = None)
    \<and> (\<forall>q. IssueListEndpoint_get c db r slug p = Response (Issues_body q) 200
          \<longrightarrow> (\<forall>i \<in> set q. deleted_at i = None))
    \<and> (\<forall>i \<in> set (IssueViewSet_get_queryset db slug p). deleted_at i = None)
    \<and> (\<forall>cls q ob g sg. IssueViewSet_list c db r slug p = Paginate cls q ob g sg
          \<longrightarrow> (\<forall>i \<in> set q. deleted_at i = None))
    \<and> (\<forall>a. IssueViewSet_retrieve db r slug p k = Response (Issue_detail a) 200
          \<longrightarrow> deleted_at (row a) = None)
    \<and> (\<forall>out t rd u k' p' a db'. IssueViewSet_partial_update c db r data slug p k =
             (out, Some (Issue_activity t rd u k' p' (Some a)), db')
          \<longrightarrow> deleted_at (row a) = None)
    \<and> (\<forall>i \<in> set (IssuePaginatedViewSet_get_queryset db slug p). deleted_at i = None)
    \<and> (\<forall>bq q cur d. IssuePaginatedViewSet_list c db r slug p = Global_paginate bq q cur d
          \<longrightarrow> (\<forall>i \<in> set bq. deleted_at i = None) \<and> (\<forall>a \<in> set q. deleted_at (row a) = None))
    \<and> (\<forall>n < length (issues db).
          issues (snd (BulkDeleteIssuesEndpoint_delete db now slug p del_ids)) ! n \<noteq> issues db ! n
          \<longrightarrow> deleted_at (issues db ! n) = None)
    \<and> (fst (IssueViewSet_destroy db now r slug p k) = Response No_body 204
          \<longrightarrow> (\<exists>i \<in> set (issues db). pk i = k \<and> workspace_slug i = slug \<and> project_id i = p
                  \<and> deleted_at i = None))
    \<and> ((\<forall>i \<in> set (issues db). pk i = k \<longrightarrow> deleted_at i \<noteq> None)
          \<longrightarrow> IssueViewSet_destroy db now r slug p k = (Raise DoesNotExist, None, db))"
proof (intro conjI)
  show "\<forall>i \<in> set (IssueListEndpoint_queryset db slug p ids). deleted_at i = None"
    by (blast dest: list_endpoint_queryset_live)
  show "\<forall>q. IssueListEndpoint_get c db r slug p = Response (Issues_body q) 200
          \<longrightarrow> (\<forall>i \<in> set q. deleted_at i = None)"
    using list_endpoint_get_live [OF assms] by blast
  show "\<forall>i \<in> set (IssueViewSet_get_queryset db slug p). deleted_at i = None"
    by (blast dest: get_queryset_live)
  show "\<forall>cls q ob g sg. IssueViewSet_list c db r slug p = Paginate cls q ob g sg
          \<longrightarrow> (\<forall>i \<in> set q. deleted_at i = None)"
    using list_live [OF assms] by blast
  show "\<forall>a. IssueViewSet_retrieve db r slug p k = Response (Issue_detail a) 200
          \<longrightarrow> deleted_at (row a) = None"
    using retrieve_live by blast
  show "\<forall>out t rd u k' p' a db'. IssueViewSet_partial_update c db r data slug p k =
             (out, Some (Issue_activity t rd u k' p' (Some a)), db')
          \<longrightarrow> deleted_at (row a) = None"
    using partial_update_live by blast
  show "\<forall>i \<in> set (IssuePaginatedViewSet_get_queryset db slug p). deleted_at i = None"
    by (blast dest: paginated_get_queryset_live)
  show "\<forall>bq q cur d. IssuePaginatedViewSet_list c db r slug p = Global_paginate bq q cur d
          \<longrightarrow> (\<forall>i \<in> set bq. deleted_at i = None) \<and> (\<forall>a \<in> set q. deleted_at (row a) = None)"
    using paginated_list_live by blast
  show "\<forall>n < length (issues db).
          issues (snd (BulkDeleteIssuesEndpoint_delete db now slug p del_ids)) ! n \<noteq> issues db ! n
          \<longrightarrow> deleted_at (issues db ! n) = None"
    using bulk_delete_targets_live by blast
  show "fst (IssueViewSet_destroy db now r slug p k) = Response No_body 204
          \<longrightarrow> (\<exists>i \<in> set (issues db). pk i = k \<and> workspace_slug i = slug \<and> project_id i = p
                  \<and> deleted_at i = None)"
    using destroy_target_live by blast
  show "(\<forall>i \<in> set (issues db). pk i = k \<longrightarrow> deleted_at i \<noteq> None)
          \<longrightarrow> IssueViewSet_destroy db now r slug p k = (Raise DoesNotExist, None, db)"
    using destroy_soft_deleted_not_found by blast
qed

text \<open>
  On the concrete store the soft-deleted \<open>i3\<close> is in the table and in no queryset, and
  \<^verbatim>\<open>destroy\<close> does not find it.
\<close>

theorem default_queries_exclude_soft_deleted_witness:
  "selects_rows collab0
   \<and> issue_3 \<in> set (issues db0) \<and> deleted_at issue_3 = Some 8
   \<and> IssueViewSet_get_queryset db0 ''acme'' ''p1'' = [issue_1, issue_2]
   \<and> deleted_at issue_1 = None \<and> deleted_at issue_2 = None
   \<and> IssueViewSet_destroy db0 20 (req ''bob'' []) ''acme'' ''p1'' ''i3'' =
       (Raise DoesNotExist, None, db0)"
proof -
  have s: "selects_rows collab0"
    by (simp add: selects_rows_def collab0_def)
  have q: "IssueViewSet_get_queryset db0 ''acme'' ''p1'' = [issue_1, issue_2]"
    by (simp add: IssueViewSet_get_queryset_def manager_defs store0_defs)
  have d: "\<forall>i \<in> set (issues db0). pk i = ''i3'' \<longrightarrow> deleted_at i \<noteq> None"
    by (simp add: store0_defs)
  note t = default_queries_exclude_soft_deleted [OF s, where db = db0 and slug = "''acme''"
      and p = "''p1''" and k = "''i3''" and r = "req ''bob'' []" and now = 20 and ids = "[]"
      and data = JNull and del_ids = None]
  from t have "\<forall>i \<in> set (IssueViewSet_get_queryset db0 ''acme'' ''p1''). deleted_at i = None"
    by (elim conjE) assumption
  with q have live: "deleted_at issue_1 = None \<and> deleted_at issue_2 = None"
    by simp
  from t have "(\<forall>i \<in> set (issues db0). pk i = ''i3'' \<longrightarrow> deleted_at i \<noteq> None)
      \<longrightarrow> IssueViewSet_destroy db0 20 (req ''bob'' []) ''acme'' ''p1'' ''i3'' =
       (Raise DoesNotExist, None, db0)"
    by (elim conjE) assumption
  with d have "IssueViewSet_destroy db0 20 (req ''bob'' []) ''acme'' ''p1'' ''i3'' =
       (Raise DoesNotExist, None, db0)"
    by (rule rev_mp)
  moreover have "issue_3 \<in> set (issues db0) \<and> deleted_at issue_3 = Some 8"
    by (simp add: store0_defs)
  ultimately show ?thesis using s q live by simp
qed

subsection \<open>IssuePaginatedViewSet.list: ascending by updated_at\<close>

text \<open>The pages up to a page number, one after the other, are a prefix of the results.\<close>

lemma sorted_order_by_updated_at: "sorted (map updated_at (order_by_updated_at q))"
  by (simp add: order_by_updated_at_def)

lemma map_key_annotate:
  "map (updated_at \<circ> row) (map (IssuePaginatedViewSet_annotate db) xs) = map updated_at xs"
  by (simp add: comp_def)

lemma concat_pages: "concat (map (page xs n) [0..<m]) = take (m * n) xs"
proof (induction m)
  case 0
  then show ?case by simp
next
  case (Suc m)
  have "take (m * n) xs @ take n (drop (m * n) xs) = take (m * n + n) xs"
    by (simp add: take_add)
  with Suc show ?case
    by (simp add: page_def add.commute)
qed

lemma paginated_list_sorted:
  assumes "IssuePaginatedViewSet_list c db r slug p = Global_paginate bq q cur d"
  shows "sorted (map updated_at bq) \<and> sorted (map (updated_at \<circ> row) q)"
proof -
  from assms consider
    (since) t where "bq = filter (\<lambda>i. t \<le> updated_at i) (order_by_updated_at
        (filter (\<lambda>i. workspace_slug i = slug \<and> project_id i = p) (issue_objects db)))"
      "q = map (IssuePaginatedViewSet_annotate db) (filter (\<lambda>i. t \<le> updated_at i)
        (order_by_updated_at (IssuePaginatedViewSet_get_queryset db slug p)))"
  | (all) "bq = order_by_updated_at
        (filter (\<lambda>i. workspace_slug i = slug \<and> project_id i = p) (issue_objects db))"
      "q = map (IssuePaginatedViewSet_annotate db)
        (order_by_updated_at (IssuePaginatedViewSet_get_queryset db slug p))"
    by (auto simp: IssuePaginatedViewSet_list_def Let_def split: if_splits option.splits)
  then show ?thesis
  proof cases
    case since
    then show ?thesis
      by (simp only: map_key_annotate) (simp add: sorted_filter sorted_order_by_updated_at)
  next
    case all
    then show ?thesis
      by (simp only: map_key_annotate) (simp add: sorted_order_by_updated_at)
  qed
qed

lemma paginated_list_since:
  assumes "IssuePaginatedViewSet_list c db r slug p = Global_paginate bq q cur d"
    and "parse_datetime c [] = None"
    and "qget (GET r) ''updated_at__gte'' = Some s" and "parse_datetime c s = Some t"
  shows "(\<forall>i \<in> set bq. t \<le> updated_at i) \<and> (\<forall>a \<in> set q. t \<le> updated_at (row a))"
proof -
  from assms(2,4) have "s \<noteq> []"
    by auto
  with assms(1,3,4) show ?thesis
    by (auto simp: IssuePaginatedViewSet_list_def Let_def truthy_def
        split: if_splits option.splits)
qed

text \<open>
  C7. Whenever the paginated sync list hands its querysets to \<^verbatim>\<open>paginate\<close>, both are
  ascending by \<^verbatim>\<open>updated_at\<close>; when \<^verbatim>\<open>updated_at__gte\<close> is supplied with a datetime,
  every row of both has an \<^verbatim>\<open>updated_at\<close> at or after it (the reader of datetimes, a
  parameter here, is taken to read none from the empty string, which \<^verbatim>\<open>list\<close> treats as
  absent); and the keys are non-decreasing across the pages, taken one after the other,
  whatever the page size.
\<close>

theorem paginated_sync_list_ascending:
  assumes "IssuePaginatedViewSet_list c db r slug p = Global_paginate bq q cur d"
    and "parse_datetime c [] = None"
  shows "sorted (map updated_at bq) \<and> sorted (map (updated_at \<circ> row) q)
    \<and> (\<forall>s t. qget (GET r) ''updated_at__gte'' = Some s \<and> parse_datetime c s = Some t \<longrightarrow>
          (\<forall>i \<in> set bq. t \<le> updated_at i) \<and> (\<forall>a \<in> set q. t \<le> updated_at (row a)))
    \<and> (\<forall>n m. sorted (map (updated_at \<circ> row) (concat (map (page q n) [0..<m]))))"
proof (intro conjI allI impI)
  show "sorted (map updated_at bq)" and s: "sorted (map (updated_at \<circ> row) q)"
    using paginated_list_sorted [OF assms(1)] by simp_all
  show "\<forall>i \<in> set bq. t \<le> updated_at i" and "\<forall>a \<in> set q. t \<le> updated_at (row a)"
    if "qget (GET r) ''updated_at__gte'' = Some s \<and> parse_datetime c s = Some t" for s t
    using paginated_list_since [OF assms] that by blast+
  show "sorted (map (updated_at \<circ> row) (concat (map (page q n) [0..<m])))" for n m
    using s by (simp only: concat_pages take_map [symmetric] sorted_wrt_take)
qed

text \<open>
  On the concrete store: since 6 only \<open>i1\<close> (updated at 10) is listed; with no bound
  \<open>i2\<close> (updated at 5) comes before \<open>i1\<close>.
\<close>

theorem paginated_sync_list_ascending_witness:
  "IssuePaginatedViewSet_list collab0 db0 (req ''bob'' [(''updated_at__gte'', ''xxxxxx'')])
       ''acme'' ''p1'' =
     Global_paginate [issue_1]
       [\<lparr>row = issue_1, label_ids = [''l1''], assignee_ids = [''bob''], module_ids = [''m1'']\<rparr>]
       None False
   \<and> IssuePaginatedViewSet_list collab0 db0 (req ''bob'' []) ''acme'' ''p1'' =
     Global_paginate [issue_2, issue_1]
       [\<lparr>row = issue_2, label_ids = [], assignee_ids = [], module_ids = []\<rparr>,
        \<lparr>row = issue_1, label_ids = [''l1''], assignee_ids = [''bob''], module_ids = [''m1'']\<rparr>]
       None False
   \<and> parse_datetime collab0 [] = None
   \<and> parse_datetime collab0 ''xxxxxx'' = Some 6
   \<and> 6 \<le> updated_at issue_1
   \<and> updated_at issue_2 \<le> updated_at issue_1"
proof -
  have a: "IssuePaginatedViewSet_list collab0 db0 (req ''bob'' [(''updated_at__gte'', ''xxxxxx'')])
       ''acme'' ''p1'' =
     Global_paginate [issue_1]
       [\<lparr>row = issue_1, label_ids = [''l1''], assignee_ids = [''bob''], module_ids = [''m1'']\<rparr>]
       None False"
    by (simp add: IssuePaginatedViewSet_list_def IssuePaginatedViewSet_get_queryset_def
        IssuePaginatedViewSet_annotate_def order_by_updated_at_def agg_label_ids_def
        agg_assignee_ids_def agg_module_ids_def qget_def truthy_def manager_defs store0_defs Let_def)
  have b: "IssuePaginatedViewSet_list collab0 db0 (req ''bob'' []) ''acme'' ''p1'' =
     Global_paginate [issue_2, issue_1]
       [\<lparr>row = issue_2, label_ids = [], assignee_ids = [], module_ids = []\<rparr>,
        \<lparr>row = issue_1, label_ids = [''l1''], assignee_ids = [''bob''], module_ids = [''m1'']\<rparr>]
       None False"
    by (simp add: IssuePaginatedViewSet_list_def IssuePaginatedViewSet_get_queryset_def
        IssuePaginatedViewSet_annotate_def order_by_updated_at_def agg_label_ids_def
        agg_assignee_ids_def agg_module_ids_def qget_def truthy_def manager_defs store0_defs Let_def)
  have g: "qget (GET (req ''bob'' [(''updated_at__gte'', ''xxxxxx'')])) ''updated_at__gte''
             = Some ''xxxxxx'' \<and> ''xxxxxx'' \<noteq> []"
    by (simp add: qget_def req_def)
  have pd: "parse_datetime collab0 ''xxxxxx'' = Some 6"
    by (simp add: collab0_def)
  have pe: "parse_datetime collab0 [] = None"
    by (simp add: collab0_def)
  from paginated_sync_list_ascending [OF a pe]
  have "\<forall>s t. qget (GET (req ''bob'' [(''updated_at__gte'', ''xxxxxx'')])) ''updated_at__gte'' = Some s
            \<and> parse_datetime collab0 s = Some t \<longrightarrow>
             (\<forall>i \<in> set [issue_1]. t \<le> updated_at i)
             \<and> (\<forall>a \<in> set [\<lparr>row = issue_1, label_ids = [''l1''], assignee_ids = [''bob''],
                    module_ids = [''m1'']\<rparr>]. t \<le> updated_at (row a))"
    by (elim conjE) assumption
  with g pd have s6: "6 \<le> updated_at issue_1"
    by auto
  from paginated_sync_list_ascending [OF b pe]
  have "sorted (map updated_at [issue_2, issue_1])"
    by (elim conjE) assumption
  then have "updated_at issue_2 \<le> updated_at issue_1"
    by simp
  with a b pd pe s6 show ?thesis by simp
qed

subsection \<open>IssueListEndpoint.get: the issues parameter\<close>












subsection \<open>IssueUserDisplayPropertyEndpoint.get\<close>

lemma objects_get_Inr:
  "IssueUserProperty_objects_get db u p = Inr x \<Longrightarrow>
     filter (\<lambda>x. iup_user x = u \<and> iup_project_id x = p) (issue_user_properties db) = [x]"
  by (auto simp: IssueUserProperty_objects_get_def split: list.splits)

lemma objects_get_Inr_iff:
  "(IssueUserProperty_objects_get db u p = Inr x) =
     (filter (\<lambda>x. iup_user x = u \<and> iup_project_id x = p) (issue_user_properties db) = [x])"
  by (auto simp: IssueUserProperty_objects_get_def split: list.splits)

lemma objects_get_DoesNotExist_iff:
  "(IssueUserProperty_objects_get db u p = Inl DoesNotExist) =
     (filter (\<lambda>x. iup_user x = u \<and> iup_project_id x = p) (issue_user_properties db) = [])"
  by (auto simp: IssueUserProperty_objects_get_def split: list.splits)

lemma get_never_not_found:
  "fst (IssueUserDisplayPropertyEndpoint_get c db new_pk r slug p) \<noteq> Raise DoesNotExist
   \<and> (\<forall>b. fst (IssueUserDisplayPropertyEndpoint_get c db new_pk r slug p) \<noteq> Response b 404)"
  by (auto simp: IssueUserDisplayPropertyEndpoint_get_def
      IssueUserProperty_objects_get_or_create_def Let_def
      split: sum.splits exn.splits prod.splits)

lemma get_existing:
  assumes "IssueUserProperty_objects_get db (user r) p = Inr x"
  shows "IssueUserDisplayPropertyEndpoint_get c db new_pk r slug p =
           (Response (Property_body x) 200, db)"
  using assms
  by (simp add: IssueUserDisplayPropertyEndpoint_get_def
      IssueUserProperty_objects_get_or_create_def)

lemma get_missing:
  assumes "IssueUserProperty_objects_get db (user r) p = Inl DoesNotExist"
  shows "IssueUserDisplayPropertyEndpoint_get c db new_pk r slug p =
     (Response (Property_body
        \<lparr>iup_pk = new_pk, iup_user = user r, iup_project_id = p,
         filters = default_filters c, display_filters = default_display_filters c,
         display_properties = default_display_properties c\<rparr>) 200,
      db\<lparr>issue_user_properties := issue_user_properties db @
        [\<lparr>iup_pk = new_pk, iup_user = user r, iup_project_id = p,
          filters = default_filters c, display_filters = default_display_filters c,
          display_properties = default_display_properties c\<rparr>]\<rparr>)"
  using assms
  by (simp add: IssueUserDisplayPropertyEndpoint_get_def
      IssueUserProperty_objects_get_or_create_def Let_def)

lemma get_missing_stored:
  assumes "IssueUserProperty_objects_get db u p = Inl DoesNotExist"
    and "iup_user x = u" and "iup_project_id x = p"
  shows "IssueUserProperty_objects_get
           (db\<lparr>issue_user_properties := issue_user_properties db @ [x]\<rparr>) u p = Inr x"
  using assms by (simp add: objects_get_DoesNotExist_iff objects_get_Inr_iff)

text \<open>
  C9. \<^verbatim>\<open>get\<close> never fails with \<^verbatim>\<open>DoesNotExist\<close> and never answers 404. Where the table
  holds at most one row for the user and project (the row is unique per user and project;
  \<^verbatim>\<open>get\<close> keeps it so), \<^verbatim>\<open>get\<close> answers 200 with a row that is stored afterwards: the
  row of defaults, created by this call, if there was none, and the stored row, with the
  store unchanged, if there was one; and a further \<^verbatim>\<open>get\<close> answers the same row and
  changes nothing.
\<close>

theorem get_display_properties_total:
  "fst (IssueUserDisplayPropertyEndpoint_get c db new_pk r slug p) \<noteq> Raise DoesNotExist
   \<and> (\<forall>b. fst (IssueUserDisplayPropertyEndpoint_get c db new_pk r slug p) \<noteq> Response b 404)
   \<and> (length (filter (\<lambda>x. iup_user x = user r \<and> iup_project_id x = p)
                 (issue_user_properties db)) \<le> 1 \<longrightarrow>
        (\<exists>ip db'. IssueUserDisplayPropertyEndpoint_get c db new_pk r slug p =
                     (Response (Property_body ip) 200, db')
           \<and> IssueUserProperty_objects_get db' (user r) p = Inr ip
           \<and> (IssueUserProperty_objects_get db (user r) p = Inl DoesNotExist \<longrightarrow>
                 ip = \<lparr>iup_pk = new_pk, iup_user = user r, iup_project_id = p,
                        filters = default_filters c,
                        display_filters = default_display_filters c,
                        display_properties = default_display_properties c\<rparr>
                 \<and> db' = db\<lparr>issue_user_properties := issue_user_properties db @ [ip]\<rparr>)
           \<and> (\<forall>x. IssueUserProperty_objects_get db (user r) p = Inr x \<longrightarrow> ip = x \<and> db' = db)
           \<and> (\<forall>new_pk'. IssueUserDisplayPropertyEndpoint_get c db' new_pk' r slug p =
                     (Response (Property_body ip) 200, db'))))"
proof (intro conjI impI)
  show "fst (IssueUserDisplayPropertyEndpoint_get c db new_pk r slug p) \<noteq> Raise DoesNotExist"
    and "\<forall>b. fst (IssueUserDisplayPropertyEndpoint_get c db new_pk r slug p) \<noteq> Response b 404"
    using get_never_not_found by blast+
next
  let ?m = "filter (\<lambda>x. iup_user x = user r \<and> iup_project_id x = p) (issue_user_properties db)"
  let ?new = "\<lparr>iup_pk = new_pk, iup_user = user r, iup_project_id = p,
                filters = default_filters c, display_filters = default_display_filters c,
                display_properties = default_display_properties c\<rparr>"
  assume le: "length ?m \<le> 1"
  show "\<exists>ip db'. IssueUserDisplayPropertyEndpoint_get c db new_pk r slug p =
                     (Response (Property_body ip) 200, db')
           \<and> IssueUserProperty_objects_get db' (user r) p = Inr ip
           \<and> (IssueUserProperty_objects_get db (user r) p = Inl DoesNotExist \<longrightarrow>
                 ip = ?new
                 \<and> db' = db\<lparr>issue_user_properties := issue_user_properties db @ [ip]\<rparr>)
           \<and> (\<forall>x. IssueUserProperty_objects_get db (user r) p = Inr x \<longrightarrow> ip = x \<and> db' = db)
           \<and> (\<forall>new_pk'. IssueUserDisplayPropertyEndpoint_get c db' new_pk' r slug p =
                     (Response (Property_body ip) 200, db'))"
  proof (cases ?m)
    case Nil
    then have none: "IssueUserProperty_objects_get db (user r) p = Inl DoesNotExist"
      by (simp add: objects_get_DoesNotExist_iff)
    let ?db' = "db\<lparr>issue_user_properties := issue_user_properties db @ [?new]\<rparr>"
    have stored: "IssueUserProperty_objects_get ?db' (user r) p = Inr ?new"
      using none by (rule get_missing_stored) simp_all
    have "IssueUserDisplayPropertyEndpoint_get c db new_pk r slug p =
            (Response (Property_body ?new) 200, ?db')"
      using none by (rule get_missing)
    moreover have "\<forall>new_pk'. IssueUserDisplayPropertyEndpoint_get c ?db' new_pk' r slug p =
                     (Response (Property_body ?new) 200, ?db')"
      using stored by (simp add: get_existing)
    ultimately show ?thesis
      using none stored by auto
  next
    case (Cons x xs)
    with le have m: "?m = [x]"
      by simp
    then have one: "IssueUserProperty_objects_get db (user r) p = Inr x"
      by (simp add: objects_get_Inr_iff)
    then have "\<forall>new_pk'. IssueUserDisplayPropertyEndpoint_get c db new_pk' r slug p =
            (Response (Property_body x) 200, db)"
      by (simp add: get_existing)
    with one show ?thesis
      by auto
  qed
qed

text \<open>
  On the concrete store bob has no row and gets the defaults, which are stored; alice
  gets her stored row.
\<close>

theorem get_display_properties_total_witness:
  "length (filter (\<lambda>x. iup_user x = user (req ''bob'' []) \<and> iup_project_id x = ''p1'')
             (issue_user_properties db0)) \<le> 1
   \<and> IssueUserProperty_objects_get db0 ''bob'' ''p1'' = Inl DoesNotExist
   \<and> IssueUserDisplayPropertyEndpoint_get collab0 db0 ''u2'' (req ''bob'' []) ''acme'' ''p1'' =
       (Response (Property_body
          \<lparr>iup_pk = ''u2'', iup_user = ''bob'', iup_project_id = ''p1'', filters = JObj [],
           display_filters = JObj [], display_properties = JObj []\<rparr>) 200,
        db0\<lparr>issue_user_properties := [property_1,
          \<lparr>iup_pk = ''u2'', iup_user = ''bob'', iup_project_id = ''p1'', filters = JObj [],
           display_filters = JObj [], display_properties = JObj []\<rparr>]\<rparr>)
   \<and> IssueUserDisplayPropertyEndpoint_get collab0 db0 ''u3'' (req ''alice'' []) ''acme'' ''p1'' =
       (Response (Property_body property_1) 200, db0)"
proof -
  have le: "length (filter (\<lambda>x. iup_user x = user (req ''bob'' []) \<and> iup_project_id x = ''p1'')
             (issue_user_properties db0)) \<le> 1"
    by (simp add: store0_defs)
  have none: "IssueUserProperty_objects_get db0 (user (req ''bob'' [])) ''p1'' = Inl DoesNotExist"
    by (simp add: IssueUserProperty_objects_get_def store0_defs)
  from get_display_properties_total [of collab0 db0 "''u2''" "req ''bob'' []" "''acme''" "''p1''"]
  have "length (filter (\<lambda>x. iup_user x = user (req ''bob'' []) \<and> iup_project_id x = ''p1'')
                 (issue_user_properties db0)) \<le> 1 \<longrightarrow>
        (\<exists>ip db'. IssueUserDisplayPropertyEndpoint_get collab0 db0 ''u2'' (req ''bob'' [])
                     ''acme'' ''p1'' = (Response (Property_body ip) 200, db')
           \<and> IssueUserProperty_objects_get db' (user (req ''bob'' [])) ''p1'' = Inr ip
           \<and> (IssueUserProperty_objects_get db0 (user (req ''bob'' [])) ''p1'' = Inl DoesNotExist \<longrightarrow>
                 ip = \<lparr>iup_pk = ''u2'', iup_user = user (req ''bob'' []), iup_project_id = ''p1'',
                        filters = default_filters collab0,
                        display_filters = default_display_filters collab0,
                        display_properties = default_display_properties collab0\<rparr>
                 \<and> db' = db0\<lparr>issue_user_properties := issue_user_properties db0 @ [ip]\<rparr>)
           \<and> (\<forall>x. IssueUserProperty_objects_get db0 (user (req ''bob'' [])) ''p1'' = Inr x
                  \<longrightarrow> ip = x \<and> db' = db0)
           \<and> (\<forall>new_pk'. IssueUserDisplayPropertyEndpoint_get collab0 db' new_pk' (req ''bob'' [])
                     ''acme'' ''p1'' = (Response (Property_body ip) 200, db')))"
    by (elim conjE) assumption
  with le none have "IssueUserDisplayPropertyEndpoint_get collab0 db0 ''u2'' (req ''bob'' [])
      ''acme'' ''p1'' =
       (Response (Property_body
          \<lparr>iup_pk = ''u2'', iup_user = user (req ''bob'' []), iup_project_id = ''p1'',
           filters = default_filters collab0,
           display_filters = default_display_filters collab0,
           display_properties = default_display_properties collab0\<rparr>) 200,
        db0\<lparr>issue_user_properties := issue_user_properties db0 @
          [\<lparr>iup_pk = ''u2'', iup_user = user (req ''bob'' []), iup_project_id = ''p1'',
           filters = default_filters collab0,
           display_filters = default_display_filters collab0,
           display_properties = default_display_properties collab0\<rparr>]\<rparr>)"
    by auto
  then have b: "IssueUserDisplayPropertyEndpoint_get collab0 db0 ''u2'' (req ''bob'' [])
      ''acme'' ''p1'' =
       (Response (Property_body
          \<lparr>iup_pk = ''u2'', iup_user = ''bob'', iup_project_id = ''p1'', filters = JObj [],
           display_filters = JObj [], display_properties = JObj []\<rparr>) 200,
        db0\<lparr>issue_user_properties := [property_1,
          \<lparr>iup_pk = ''u2'', iup_user = ''bob'', iup_project_id = ''p1'', filters = JObj [],
           display_filters = JObj [], display_properties = JObj []\<rparr>]\<rparr>)"
    by (simp add: req_def collab0_def db0_def)
  have a: "IssueUserDisplayPropertyEndpoint_get collab0 db0 ''u3'' (req ''alice'' []) ''acme'' ''p1'' =
       (Response (Property_body property_1) 200, db0)"
    by (simp add: IssueUserDisplayPropertyEndpoint_get_def
        IssueUserProperty_objects_get_or_create_def IssueUserProperty_objects_get_def store0_defs)
  from le none a b show ?thesis
    by (simp add: req_def)
qed

subsection \<open>IssueUserDisplayPropertyEndpoint.patch\<close>

text \<open>
  With keys that identify rows, saving a stored row under its key replaces that row and
  no other.
\<close>

lemma patch_raises:
  assumes "IssueUserProperty_objects_get db (user r) p = Inl e"
  shows "IssueUserDisplayPropertyEndpoint_patch db r data slug p = (Raise e, db)"
  using assms by (simp add: IssueUserDisplayPropertyEndpoint_patch_def)

lemma save_by_key:
  assumes "distinct (map iup_pk (issue_user_properties db))"
    and "ip \<in> set (issue_user_properties db)" and "iup_pk ip' = iup_pk ip"
  shows "issue_property_save db ip' =
           db\<lparr>issue_user_properties :=
                map (\<lambda>x. if x = ip then ip' else x) (issue_user_properties db)\<rparr>"
proof -
  from assms(1) have "inj_on iup_pk (set (issue_user_properties db))"
    by (simp add: distinct_map)
  with assms(2) have "\<forall>x \<in> set (issue_user_properties db). (iup_pk x = iup_pk ip) = (x = ip)"
    by (auto dest: inj_onD)
  then have "map (\<lambda>x. if iup_pk x = iup_pk ip' then ip' else x) (issue_user_properties db) =
             map (\<lambda>x. if x = ip then ip' else x) (issue_user_properties db)"
    using assms(3) by (intro map_cong) auto
  then show ?thesis
    by (simp add: issue_property_save_def)
qed

lemma stored_after_replace:
  assumes "filter (\<lambda>x. iup_user x = u \<and> iup_project_id x = p) xs = [ip]"
    and "iup_user ip' = u" and "iup_project_id ip' = p"
  shows "filter (\<lambda>x. iup_user x = u \<and> iup_project_id x = p)
           (map (\<lambda>x. if x = ip then ip' else x) xs) = [ip']"
proof -
  have "ip \<in> set (filter (\<lambda>x. iup_user x = u \<and> iup_project_id x = p) xs)"
    by (simp add: assms(1))
  then have ip: "iup_user ip = u \<and> iup_project_id ip = p"
    by simp
  have "filter (\<lambda>x. iup_user x = u \<and> iup_project_id x = p)
           (map (\<lambda>x. if x = ip then ip' else x) xs) =
        map (\<lambda>x. if x = ip then ip' else x)
          (filter (\<lambda>x. iup_user x = u \<and> iup_project_id x = p) xs)"
    unfolding filter_map using assms(2,3) ip
    by (intro arg_cong [where f = "map _"] filter_cong) (auto simp: comp_def)
  then show ?thesis
    by (simp add: assms(1))
qed

text \<open>
  C10. Keys of the table being unique: when the lookup of \<^verbatim>\<open>patch\<close> raises, nothing is
  stored. Otherwise \<^verbatim>\<open>patch\<close> answers 201 with a row that is the stored row of the user
  and project afterwards, in which each of \<^verbatim>\<open>filters\<close>, \<^verbatim>\<open>display_filters\<close> and
  \<^verbatim>\<open>display_properties\<close> is the payload's value if the payload has the key and the value
  stored before if it has not; key, user and project of the row are as before; and in the
  store that one row is replaced and nothing else changes.
\<close>

theorem patch_display_properties_frame:
  assumes "distinct (map iup_pk (issue_user_properties db))"
  shows "case IssueUserProperty_objects_get db (user r) p of
           Inl e \<Rightarrow> IssueUserDisplayPropertyEndpoint_patch db r data slug p = (Raise e, db)
         | Inr ip \<Rightarrow>
             (\<exists>ip' db'. IssueUserDisplayPropertyEndpoint_patch db r data slug p =
                           (Response (Property_body ip') 201, db')
                \<and> IssueUserProperty_objects_get db' (user r) p = Inr ip'
                \<and> filters ip' = (case data ''filters'' of None \<Rightarrow> filters ip | Some v \<Rightarrow> v)
                \<and> display_filters ip' =
                    (case data ''display_filters'' of None \<Rightarrow> display_filters ip | Some v \<Rightarrow> v)
                \<and> display_properties ip' =
                    (case data ''display_properties'' of
                       None \<Rightarrow> display_properties ip | Some v \<Rightarrow> v)
                \<and> iup_pk ip' = iup_pk ip \<and> iup_user ip' = iup_user ip
                \<and> iup_project_id ip' = iup_project_id ip
                \<and> db' = db\<lparr>issue_user_properties :=
                            map (\<lambda>x. if x = ip then ip' else x) (issue_user_properties db)\<rparr>)"
proof (cases "IssueUserProperty_objects_get db (user r) p")
  case (Inl e)
  then show ?thesis
    by (simp add: patch_raises)
next
  case (Inr ip)
  let ?ip' = "ip\<lparr>filters := data_get data ''filters'' (filters ip),
                 display_filters := data_get data ''display_filters'' (display_filters ip),
                 display_properties :=
                   data_get data ''display_properties'' (display_properties ip)\<rparr>"
  let ?db' = "db\<lparr>issue_user_properties :=
                   map (\<lambda>x. if x = ip then ?ip' else x) (issue_user_properties db)\<rparr>"
  from Inr have m: "filter (\<lambda>x. iup_user x = user r \<and> iup_project_id x = p)
                      (issue_user_properties db) = [ip]"
    by (rule objects_get_Inr)
  then have "ip \<in> set (filter (\<lambda>x. iup_user x = user r \<and> iup_project_id x = p)
                      (issue_user_properties db))"
    by simp
  then have mem: "ip \<in> set (issue_user_properties db)"
    and who: "iup_user ip = user r" "iup_project_id ip = p"
    by simp_all
  have save: "issue_property_save db ?ip' = ?db'"
    using assms mem by (rule save_by_key) simp
  have res: "IssueUserDisplayPropertyEndpoint_patch db r data slug p =
               (Response (Property_body ?ip') 201, ?db')"
    using Inr save by (simp add: IssueUserDisplayPropertyEndpoint_patch_def Let_def)
  have "filter (\<lambda>x. iup_user x = user r \<and> iup_project_id x = p)
          (map (\<lambda>x. if x = ip then ?ip' else x) (issue_user_properties db)) = [?ip']"
    using m by (rule stored_after_replace) (simp_all add: who)
  then have stored: "IssueUserProperty_objects_get ?db' (user r) p = Inr ?ip'"
    by (simp add: objects_get_Inr_iff)
  have f1: "filters ?ip' = (case data ''filters'' of None \<Rightarrow> filters ip | Some v \<Rightarrow> v)"
    and f2: "display_filters ?ip' =
           (case data ''display_filters'' of None \<Rightarrow> display_filters ip | Some v \<Rightarrow> v)"
    and f3: "display_properties ?ip' =
           (case data ''display_properties'' of None \<Rightarrow> display_properties ip | Some v \<Rightarrow> v)"
    and f4: "iup_pk ?ip' = iup_pk ip" and f5: "iup_user ?ip' = iup_user ip"
    and f6: "iup_project_id ?ip' = iup_project_id ip"
    by (simp_all add: data_get_def)
  have f7: "?db' = db\<lparr>issue_user_properties :=
                map (\<lambda>x. if x = ip then ?ip' else x) (issue_user_properties db)\<rparr>"
    by (rule refl)
  have "\<exists>ip' db'. IssueUserDisplayPropertyEndpoint_patch db r data slug p =
                           (Response (Property_body ip') 201, db')
                \<and> IssueUserProperty_objects_get db' (user r) p = Inr ip'
                \<and> filters ip' = (case data ''filters'' of None \<Rightarrow> filters ip | Some v \<Rightarrow> v)
                \<and> display_filters ip' =
                    (case data ''display_filters'' of None \<Rightarrow> display_filters ip | Some v \<Rightarrow> v)
                \<and> display_properties ip' =
                    (case data ''display_properties'' of
                       None \<Rightarrow> display_properties ip | Some v \<Rightarrow> v)
                \<and> iup_pk ip' = iup_pk ip \<and> iup_user ip' = iup_user ip
                \<and> iup_project_id ip' = iup_project_id ip
                \<and> db' = db\<lparr>issue_user_properties :=
                            map (\<lambda>x. if x = ip then ip' else x) (issue_user_properties db)\<rparr>"
    apply (rule exI [of _ ?ip'])
    apply (rule exI [of _ ?db'])
    apply (intro conjI)
            apply (rule res)
           apply (rule stored)
          apply (rule f1)
         apply (rule f2)
        apply (rule f3)
       apply (rule f4)
      apply (rule f5)
     apply (rule f6)
    apply (rule f7)
    done
  then show ?thesis
    by (simp only: Inr sum.case)
qed

text \<open>
  On the concrete store a payload with the key \<^verbatim>\<open>filters\<close> alone changes alice's
  \<^verbatim>\<open>filters\<close> and leaves her \<^verbatim>\<open>display_filters\<close> and \<^verbatim>\<open>display_properties\<close>.
\<close>

theorem patch_display_properties_frame_witness:
  "distinct (map iup_pk (issue_user_properties db0))
   \<and> IssueUserProperty_objects_get db0 ''alice'' ''p1'' = Inr property_1
   \<and> IssueUserDisplayPropertyEndpoint_patch db0 (req ''alice'' [])
        [''filters'' \<mapsto> JObj [(''state'', JArr [])]] ''acme'' ''p1'' =
       (Response (Property_body (property_1\<lparr>filters := JObj [(''state'', JArr [])]\<rparr>)) 201,
        db0\<lparr>issue_user_properties := [property_1\<lparr>filters := JObj [(''state'', JArr [])]\<rparr>]\<rparr>)
   \<and> display_filters (property_1\<lparr>filters := JObj [(''state'', JArr [])]\<rparr>) =
       display_filters property_1
   \<and> display_properties (property_1\<lparr>filters := JObj [(''state'', JArr [])]\<rparr>) =
       display_properties property_1"
proof -
  let ?data = "[''filters'' \<mapsto> JObj [(''state'', JArr [])]]"
  let ?new = "property_1\<lparr>filters := JObj [(''state'', JArr [])]\<rparr>"
  have d: "distinct (map iup_pk (issue_user_properties db0))"
    by (simp add: store0_defs)
  have g: "IssueUserProperty_objects_get db0 (user (req ''alice'' [])) ''p1'' = Inr property_1"
    by (simp add: IssueUserProperty_objects_get_def store0_defs)
  have e: "IssueUserDisplayPropertyEndpoint_patch db0 (req ''alice'' []) ?data ''acme'' ''p1'' =
       (Response (Property_body ?new) 201, db0\<lparr>issue_user_properties := [?new]\<rparr>)"
    by (simp add: IssueUserDisplayPropertyEndpoint_patch_def IssueUserProperty_objects_get_def
        issue_property_save_def data_get_def store0_defs Let_def)
  have absent: "?data ''display_filters'' = None" "?data ''display_properties'' = None"
    by simp_all
  from patch_display_properties_frame [OF d, where r = "req ''alice'' []" and p = "''p1''"
      and data = ?data and slug = "''acme''"]
  obtain ip' db' where
    r: "IssueUserDisplayPropertyEndpoint_patch db0 (req ''alice'' []) ?data ''acme'' ''p1'' =
          (Response (Property_body ip') 201, db')"
    and df: "display_filters ip' =
          (case ?data ''display_filters'' of None \<Rightarrow> display_filters property_1 | Some v \<Rightarrow> v)"
    and dp: "display_properties ip' =
          (case ?data ''display_properties'' of None \<Rightarrow> display_properties property_1 | Some v \<Rightarrow> v)"
    unfolding g sum.case by blast
  from r e have "ip' = ?new"
    by simp
  with df dp absent have "display_filters ?new = display_filters property_1"
    and "display_properties ?new = display_properties property_1"
    by simp_all
  with d g e show ?thesis
    by (simp add: req_def)
qed

end
